theory Spec2Isabelle
  imports Complex_Main "HOL-Library.Sublist"
begin

section \<open>JavaScript primitives used by the recommendation code\<close>

text \<open>
  Numbers are modelled as reals: exact arithmetic, no rounding and no overflow. The one
  numeric operation of the code that leaves the reals is a division by zero (\<open>0/0\<close> is
  \<open>NaN\<close> in JavaScript); it is modelled by \<open>None\<close>, and \<open>NaN\<close> propagates through the
  arithmetic and through \<open>Math.max\<close>/\<open>Math.min\<close> that follow it.

  Strings are byte lists. \<open>toLowerCase\<close> maps the ASCII letters \<open>A\<close>..\<open>Z\<close> to
  \<open>a\<close>..\<open>z\<close> and leaves every other byte alone; \<open>s.includes(t)\<close> holds when \<open>t\<close>
  occurs in \<open>s\<close> as a contiguous block.
\<close>

definition toLowerCaseChar :: "char \<Rightarrow> char" where
  "toLowerCaseChar c =
     (let n = (of_char c :: nat) in if 65 \<le> n \<and> n \<le> 90 then char_of (n + 32) else c)"

definition toLowerCase :: "string \<Rightarrow> string" where
  "toLowerCase s = map toLowerCaseChar s"

definition includes_str :: "string \<Rightarrow> string \<Rightarrow> bool" where
  "includes_str s searchString = sublist searchString s"

text \<open>\<open>v || d\<close> on an optional number: \<open>undefined\<close> and \<open>0\<close> are both falsy.\<close>

definition orElse :: "real option \<Rightarrow> real \<Rightarrow> real" where
  "orElse v d = (case v of None \<Rightarrow> d | Some x \<Rightarrow> if x = 0 then d else x)"

text \<open>Truthiness of an optional boolean flag (\<open>!recipe.vegan\<close> is its negation).\<close>

definition truthy :: "bool option \<Rightarrow> bool" where
  "truthy b = (case b of None \<Rightarrow> False | Some v \<Rightarrow> v)"

definition js_divide :: "real \<Rightarrow> real \<Rightarrow> real option" where
  "js_divide a b = (if b = 0 then None else Some (a / b))"

section \<open>Data model\<close>

datatype SkillLevel = Beginner | Intermediate | Advanced

record UserPreferences =
  dietaryRestrictions :: "string list"
  favoriteIngredients :: "string list"
  dislikedIngredients :: "string list"
  cuisinePreferences :: "string list"
  maxCookingTime :: real
  skillLevel :: SkillLevel

record CookingHistory =
  recipeId :: string
  cookedAt :: string
  rating :: "real option"
  notes_text :: "string option"

text \<open>
  The recipe is an untyped object in the source; these are the fields the scoring reads.
  \<open>idString\<close> is \<open>recipe.id.toString()\<close>, \<open>extendedIngredients\<close> holds the \<open>name\<close> of
  each ingredient object, and a field the object lacks is \<open>None\<close>.
\<close>

record Recipe =
  idString :: string
  healthScore :: "real option"
  spoonacularScore :: "real option"
  readyInMinutes :: "real option"
  extendedIngredients :: "string list option"
  instructions :: "string option"
  vegetarian :: "bool option"
  vegan :: "bool option"
  glutenFree :: "bool option"

datatype Complexity = Easy | Medium | Hard

section \<open>Scoring helpers (textually the same in both modules)\<close>

text \<open>The three anonymous predicates passed to \<open>some\<close>.\<close>

definition availabilityMatch :: "string \<Rightarrow> string \<Rightarrow> bool" where
  "availabilityMatch recipeIng availableIng \<longleftrightarrow>
     includes_str (toLowerCase availableIng) recipeIng \<or>
     includes_str recipeIng (toLowerCase availableIng)"

definition favoriteMatch :: "string \<Rightarrow> string \<Rightarrow> bool" where
  "favoriteMatch recipeIng favorite \<longleftrightarrow> includes_str recipeIng (toLowerCase favorite)"

definition dislikedMatch :: "string \<Rightarrow> string \<Rightarrow> bool" where
  "dislikedMatch recipeIng disliked \<longleftrightarrow> includes_str recipeIng (toLowerCase disliked)"

definition calculateIngredientAvailability :: "string list \<Rightarrow> string list \<Rightarrow> real option" where
  "calculateIngredientAvailability recipeIngredients availableIngredients =
     (if length recipeIngredients = 0 then Some 0
      else
        let availableCount =
              length (filter (\<lambda>recipeIng. list_ex (availabilityMatch recipeIng) availableIngredients)
                        recipeIngredients)
        in js_divide (real availableCount) (real (length recipeIngredients)))"

definition calculateFavoriteIngredientsBonus :: "string list \<Rightarrow> string list \<Rightarrow> real" where
  "calculateFavoriteIngredientsBonus recipeIngredients favoriteIngs =
     (if length favoriteIngs = 0 then 0
      else
        let favoriteCount =
              length (filter (\<lambda>recipeIng. list_ex (favoriteMatch recipeIng) favoriteIngs)
                        recipeIngredients)
        in real favoriteCount * 8)"

definition calculateDislikedIngredientsPenalty :: "string list \<Rightarrow> string list \<Rightarrow> real" where
  "calculateDislikedIngredientsPenalty recipeIngredients dislikedIngs =
     (if length dislikedIngs = 0 then 0
      else
        let dislikedCount =
              length (filter (\<lambda>recipeIng. list_ex (dislikedMatch recipeIng) dislikedIngs)
                        recipeIngredients)
        in real dislikedCount * 15)"

text \<open>
  \<open>recipe.extendedIngredients?.map(ing => ing.name.toLowerCase()) || []\<close>
\<close>

definition recipeIngredientsOf :: "Recipe \<Rightarrow> string list" where
  "recipeIngredientsOf recipe =
     (case extendedIngredients recipe of None \<Rightarrow> [] | Some ings \<Rightarrow> map toLowerCase ings)"

section \<open>RecommendationEngine.calculateRecipeScore (the trimmed module)\<close>

definition engine_calculateRecipeScore ::
  "Recipe \<Rightarrow> UserPreferences \<Rightarrow> string list \<Rightarrow> real option" where
  "engine_calculateRecipeScore recipe preferences availableIngredients =
     (let score1 = 0 + orElse (healthScore recipe) 50 * 0.3;
          score2 = score1 + orElse (spoonacularScore recipe) 50 * 0.2;
          recipeIngredients = recipeIngredientsOf recipe
      in case calculateIngredientAvailability recipeIngredients availableIngredients of
           None \<Rightarrow> None
         | Some availabilityScore \<Rightarrow>
             let score3 = score2 + availabilityScore * 20;
                 cookingTime = orElse (readyInMinutes recipe) 60;
                 score4 =
                   (if cookingTime \<le> maxCookingTime preferences
                    then (if cookingTime \<le> 30 then score3 + 15 + 10 else score3 + 15)
                    else score3 - 10);
                 favoriteBonus =
                   calculateFavoriteIngredientsBonus recipeIngredients
                     (favoriteIngredients preferences);
                 score5 = score4 + favoriteBonus;
                 dislikedPenalty =
                   calculateDislikedIngredientsPenalty recipeIngredients
                     (dislikedIngredients preferences);
                 score6 = score5 - dislikedPenalty
             in Some (max 0 (min 100 score6)))"

section \<open>RecommendationService.calculateRecipeScore (the full module)\<close>

definition checkDietaryCompliance :: "Recipe \<Rightarrow> string list \<Rightarrow> bool" where
  "checkDietaryCompliance recipe restrictions =
     (if ''vegetarian'' \<in> set restrictions \<and> \<not> truthy (vegetarian recipe) then False
      else if ''vegan'' \<in> set restrictions \<and> \<not> truthy (vegan recipe) then False
      else if ''glutenFree'' \<in> set restrictions \<and> \<not> truthy (glutenFree recipe) then False
      else True)"

definition estimateRecipeComplexity :: "Recipe \<Rightarrow> Complexity" where
  "estimateRecipeComplexity recipe =
     (let cookingTime = orElse (readyInMinutes recipe) 30;
          instructionLength =
            (case instructions recipe of None \<Rightarrow> 0 | Some body \<Rightarrow> real (length body));
          ingredientCount =
            (case extendedIngredients recipe of None \<Rightarrow> 0 | Some ings \<Rightarrow> real (length ings));
          complexityScore = cookingTime / 10 + instructionLength / 100 + ingredientCount
      in if complexityScore < 15 then Easy
         else if complexityScore < 30 then Medium
         else Hard)"

definition calculateSkillLevelBonus :: "Recipe \<Rightarrow> SkillLevel \<Rightarrow> real" where
  "calculateSkillLevelBonus recipe level =
     (let complexity = estimateRecipeComplexity recipe
      in case level of
           Beginner \<Rightarrow> (if complexity = Easy then 10 else if complexity = Medium then 0 else - 10)
         | Intermediate \<Rightarrow> (if complexity = Medium then 10 else 5)
         | Advanced \<Rightarrow> (if complexity = Hard then 15 else 8))"

text \<open>
  \<open>historyEntry?.rating\<close> is truthy when an entry was found, it has a rating, and the
  rating is not \<open>0\<close>; \<open>historyBonus\<close> is what the guarded statement adds.
\<close>

definition historyBonus :: "Recipe \<Rightarrow> CookingHistory list \<Rightarrow> real" where
  "historyBonus recipe history =
     (case find (\<lambda>h. recipeId h = idString recipe) history of
        None \<Rightarrow> 0
      | Some historyEntry \<Rightarrow>
          (case rating historyEntry of
             None \<Rightarrow> 0
           | Some r \<Rightarrow> if r = 0 then 0 else r * 5))"

definition service_calculateRecipeScore ::
  "Recipe \<Rightarrow> UserPreferences \<Rightarrow> CookingHistory list \<Rightarrow> string list \<Rightarrow> real option" where
  "service_calculateRecipeScore recipe preferences history availableIngredients =
     (let score1 = 0 + orElse (healthScore recipe) 50 * 0.3;
          score2 = score1 + orElse (spoonacularScore recipe) 50 * 0.2;
          recipeIngredients = recipeIngredientsOf recipe
      in case calculateIngredientAvailability recipeIngredients availableIngredients of
           None \<Rightarrow> None
         | Some availabilityScore \<Rightarrow>
             let score3 = score2 + availabilityScore * 20;
                 cookingTime = orElse (readyInMinutes recipe) 60;
                 score4 =
                   (if cookingTime \<le> maxCookingTime preferences
                    then (if cookingTime \<le> 30 then score3 + 15 + 10 else score3 + 15)
                    else score3 - 10);
                 favoriteBonus =
                   calculateFavoriteIngredientsBonus recipeIngredients
                     (favoriteIngredients preferences);
                 score5 = score4 + favoriteBonus;
                 dislikedPenalty =
                   calculateDislikedIngredientsPenalty recipeIngredients
                     (dislikedIngredients preferences);
                 score6 = score5 - dislikedPenalty;
                 score7 = score6 + historyBonus recipe history;
                 score8 =
                   (if checkDietaryCompliance recipe (dietaryRestrictions preferences)
                    then score7 + 10 else score7);
                 skillBonus = calculateSkillLevelBonus recipe (skillLevel preferences);
                 score9 = score8 + skillBonus
             in Some (max 0 (min 100 score9)))"

section \<open>Persistent storage\<close>

text \<open>
  \<open>AsyncStorage\<close> is an external key/value store of texts. The model keeps, for each of
  the two keys the services use, what \<open>getItem\<close> resolves to and what \<open>JSON.parse\<close>
  makes of it: \<open>NoItem\<close> is \<open>null\<close>, \<open>EmptyText\<close> is the empty string (falsy, like
  \<open>null\<close>), \<open>InvalidJson\<close> is a text on which \<open>JSON.parse\<close> throws, and \<open>JsonOf v\<close>
  is the text \<open>JSON.stringify(v)\<close>, which \<open>JSON.parse\<close> turns back into \<open>v\<close>. The two
  flags say whether the store currently rejects reads and writes. Under each key the
  store holds what the services wrote there: a text that parses to a value of another
  shape is not modelled.
\<close>

datatype 'a item = NoItem | EmptyText | InvalidJson | JsonOf 'a

datatype error = StorageFailure | SyntaxError

record AsyncStorage =
  userPreferencesItem :: "UserPreferences item"
  cookingHistoryItem :: "CookingHistory list item"
  getItemRejects :: bool
  setItemRejects :: bool

definition getItem_PREFERENCES :: "AsyncStorage \<Rightarrow> error + UserPreferences item" where
  "getItem_PREFERENCES st =
     (if getItemRejects st then Inl StorageFailure else Inr (userPreferencesItem st))"

definition getItem_COOKING_HISTORY :: "AsyncStorage \<Rightarrow> error + CookingHistory list item" where
  "getItem_COOKING_HISTORY st =
     (if getItemRejects st then Inl StorageFailure else Inr (cookingHistoryItem st))"

definition setItem_PREFERENCES :: "AsyncStorage \<Rightarrow> UserPreferences \<Rightarrow> error + AsyncStorage" where
  "setItem_PREFERENCES st v =
     (if setItemRejects st then Inl StorageFailure
      else Inr (st\<lparr>userPreferencesItem := JsonOf v\<rparr>))"

definition setItem_COOKING_HISTORY ::
  "AsyncStorage \<Rightarrow> CookingHistory list \<Rightarrow> error + AsyncStorage" where
  "setItem_COOKING_HISTORY st v =
     (if setItemRejects st then Inl StorageFailure
      else Inr (st\<lparr>cookingHistoryItem := JsonOf v\<rparr>))"

text \<open>The condition \<open>saved ? \<dots> : \<dots>\<close> on what \<open>getItem\<close> resolved to.\<close>

fun savedTruthy :: "'a item \<Rightarrow> bool" where
  "savedTruthy NoItem = False"
| "savedTruthy EmptyText = False"
| "savedTruthy InvalidJson = True"
| "savedTruthy (JsonOf v) = True"

fun JSON_parse :: "'a item \<Rightarrow> error + 'a" where
  "JSON_parse (JsonOf v) = Inr v"
| "JSON_parse NoItem = Inl SyntaxError"
| "JSON_parse EmptyText = Inl SyntaxError"
| "JSON_parse InvalidJson = Inl SyntaxError"

definition defaultPreferences :: UserPreferences where
  "defaultPreferences =
     \<lparr> dietaryRestrictions = [], favoriteIngredients = [], dislikedIngredients = [],
       cuisinePreferences = [], maxCookingTime = 60, skillLevel = Beginner \<rparr>"

section \<open>RecommendationEngine: preferences, ranking, suggestions\<close>

text \<open>
  No method of \<open>RecommendationEngine\<close> writes to its \<open>defaultPreferences\<close> field, so the
  field is the constant above. Every \<open>try\<close>/\<open>catch\<close> is the \<open>Inl\<close> branch of a \<open>case\<close>.
\<close>

definition engine_getUserPreferences :: "AsyncStorage \<Rightarrow> UserPreferences" where
  "engine_getUserPreferences st =
     (case getItem_PREFERENCES st of
        Inl e \<Rightarrow> defaultPreferences
      | Inr saved \<Rightarrow>
          if savedTruthy saved
          then (case JSON_parse saved of Inl e \<Rightarrow> defaultPreferences | Inr parsed \<Rightarrow> parsed)
          else defaultPreferences)"

text \<open>\<open>{ ...recipe, personalScore: score }\<close>\<close>

record ScoredRecipe = Recipe +
  personalScore :: real

definition withPersonalScore :: "Recipe \<Rightarrow> real \<Rightarrow> ScoredRecipe" where
  "withPersonalScore recipe score = Recipe.extend recipe (ScoredRecipe.fields score)"

text \<open>
  \<open>scoredRecipes.sort((a, b) => b.personalScore - a.personalScore)\<close>: the sort of
  ECMAScript is stable, and this comparator orders by descending score.
\<close>

definition sortByPersonalScore :: "ScoredRecipe list \<Rightarrow> ScoredRecipe list" where
  "sortByPersonalScore scoredRecipes = sort_key (\<lambda>r. - personalScore r) scoredRecipes"

text \<open>
  A score that is \<open>NaN\<close> would make the comparator inconsistent and the order
  implementation-defined; the ranking is then \<open>None\<close>.
\<close>

definition engine_getPersonalizedRecommendations ::
  "AsyncStorage \<Rightarrow> string list \<Rightarrow> Recipe list \<Rightarrow> ScoredRecipe list option" where
  "engine_getPersonalizedRecommendations st availableIngredients recipes =
     (let preferences = engine_getUserPreferences st;
          scoredRecipes =
            map (\<lambda>recipe.
                   map_option (withPersonalScore recipe)
                     (engine_calculateRecipeScore recipe preferences availableIngredients))
                recipes
      in map_option sortByPersonalScore (those scoredRecipes))"

text \<open>
  A \<open>Set<string>\<close> iterates in insertion order and ignores the \<open>add\<close> of a member;
  \<open>forEach\<close> is a left fold.
\<close>

definition set_add :: "string list \<Rightarrow> string \<Rightarrow> string list" where
  "set_add suggestions ing = (if ing \<in> set suggestions then suggestions else suggestions @ [ing])"

definition complementaryMap :: "(string \<times> string list) list" where
  "complementaryMap =
     [ (''tomato'', [''basil'', ''mozzarella'', ''garlic'', ''olive oil'']),
       (''chicken'', [''rosemary'', ''thyme'', ''lemon'', ''garlic'']),
       (''pasta'', [''parmesan'', ''basil'', ''garlic'', ''olive oil'']),
       (''rice'', [''soy sauce'', ''ginger'', ''scallions'']),
       (''beef'', [''onion'', ''garlic'', ''mushrooms'']),
       (''salmon'', [''dill'', ''lemon'', ''capers'']),
       (''potato'', [''rosemary'', ''thyme'', ''garlic'', ''butter'']) ]"

definition getComplementaryIngredients :: "string list \<Rightarrow> string list" where
  "getComplementaryIngredients ingredients =
     foldl (\<lambda>suggestions ingredient.
              let lowerIngredient = toLowerCase ingredient
              in foldl (\<lambda>suggestions (key, complements).
                          if includes_str lowerIngredient key
                          then foldl set_add suggestions complements
                          else suggestions)
                       suggestions complementaryMap)
           [] ingredients"

definition suggestionKept :: "string list \<Rightarrow> string list \<Rightarrow> string \<Rightarrow> bool" where
  "suggestionKept currentIngredients dislikedIngs ing \<longleftrightarrow>
     \<not> list_ex (\<lambda>current. includes_str (toLowerCase current) (toLowerCase ing)) currentIngredients \<and>
     \<not> list_ex (\<lambda>disliked. includes_str (toLowerCase disliked) (toLowerCase ing)) dislikedIngs"

definition engine_getSuggestedIngredients :: "AsyncStorage \<Rightarrow> string list \<Rightarrow> string list" where
  "engine_getSuggestedIngredients st currentIngredients =
     (let preferences = engine_getUserPreferences st;
          suggestions1 = foldl set_add [] (favoriteIngredients preferences);
          complementary = getComplementaryIngredients currentIngredients;
          suggestions2 = foldl set_add suggestions1 complementary
      in take 8 (filter (suggestionKept currentIngredients (dislikedIngredients preferences))
                   suggestions2))"

section \<open>RecommendationService: preferences, history, ranking\<close>

text \<open>
  \<open>getUserPreferences\<close> returns the object held in the field \<open>defaultPreferences\<close>
  itself when nothing can be read, and \<open>updateIngredientPreference\<close> changes the object
  it was given in place. The service state therefore holds that object beside the store,
  and a read yields either a reference to it or a fresh parsed copy.
\<close>

record RecommendationService =
  defaultPreferencesObj :: UserPreferences
  asyncStorage :: AsyncStorage

definition newRecommendationService :: "AsyncStorage \<Rightarrow> RecommendationService" where
  "newRecommendationService st =
     \<lparr> defaultPreferencesObj = defaultPreferences, asyncStorage = st \<rparr>"

datatype PreferencesRef = DefaultObject | ParsedCopy UserPreferences

definition service_getUserPreferences :: "RecommendationService \<Rightarrow> PreferencesRef" where
  "service_getUserPreferences s =
     (case getItem_PREFERENCES (asyncStorage s) of
        Inl e \<Rightarrow> DefaultObject
      | Inr saved \<Rightarrow>
          if savedTruthy saved
          then (case JSON_parse saved of Inl e \<Rightarrow> DefaultObject | Inr parsed \<Rightarrow> ParsedCopy parsed)
          else DefaultObject)"

fun deref :: "RecommendationService \<Rightarrow> PreferencesRef \<Rightarrow> UserPreferences" where
  "deref s DefaultObject = defaultPreferencesObj s"
| "deref s (ParsedCopy p) = p"

definition service_currentPreferences :: "RecommendationService \<Rightarrow> UserPreferences" where
  "service_currentPreferences s = deref s (service_getUserPreferences s)"

text \<open>\<open>Partial<UserPreferences>\<close> and the spread \<open>{ ...current, ...preferences }\<close>.\<close>

record PartialPreferences =
  p_dietaryRestrictions :: "string list option"
  p_favoriteIngredients :: "string list option"
  p_dislikedIngredients :: "string list option"
  p_cuisinePreferences :: "string list option"
  p_maxCookingTime :: "real option"
  p_skillLevel :: "SkillLevel option"

definition spread :: "UserPreferences \<Rightarrow> PartialPreferences \<Rightarrow> UserPreferences" where
  "spread current preferences =
     \<lparr> dietaryRestrictions =
         (case p_dietaryRestrictions preferences of None \<Rightarrow> dietaryRestrictions current | Some v \<Rightarrow> v),
       favoriteIngredients =
         (case p_favoriteIngredients preferences of None \<Rightarrow> favoriteIngredients current | Some v \<Rightarrow> v),
       dislikedIngredients =
         (case p_dislikedIngredients preferences of None \<Rightarrow> dislikedIngredients current | Some v \<Rightarrow> v),
       cuisinePreferences =
         (case p_cuisinePreferences preferences of None \<Rightarrow> cuisinePreferences current | Some v \<Rightarrow> v),
       maxCookingTime =
         (case p_maxCookingTime preferences of None \<Rightarrow> maxCookingTime current | Some v \<Rightarrow> v),
       skillLevel =
         (case p_skillLevel preferences of None \<Rightarrow> skillLevel current | Some v \<Rightarrow> v) \<rparr>"

definition allFields :: "UserPreferences \<Rightarrow> PartialPreferences" where
  "allFields p =
     \<lparr> p_dietaryRestrictions = Some (dietaryRestrictions p),
       p_favoriteIngredients = Some (favoriteIngredients p),
       p_dislikedIngredients = Some (dislikedIngredients p),
       p_cuisinePreferences = Some (cuisinePreferences p),
       p_maxCookingTime = Some (maxCookingTime p),
       p_skillLevel = Some (skillLevel p) \<rparr>"

definition service_updateUserPreferences ::
  "RecommendationService \<Rightarrow> PartialPreferences \<Rightarrow> RecommendationService" where
  "service_updateUserPreferences s preferences =
     (let current = service_currentPreferences s;
          updated = spread current preferences
      in case setItem_PREFERENCES (asyncStorage s) updated of
           Inl e \<Rightarrow> s
         | Inr st \<Rightarrow> s\<lparr>asyncStorage := st\<rparr>)"

definition service_getCookingHistory :: "RecommendationService \<Rightarrow> CookingHistory list" where
  "service_getCookingHistory s =
     (case getItem_COOKING_HISTORY (asyncStorage s) of
        Inl e \<Rightarrow> []
      | Inr saved \<Rightarrow>
          if savedTruthy saved
          then (case JSON_parse saved of Inl e \<Rightarrow> [] | Inr parsed \<Rightarrow> parsed)
          else [])"

text \<open>\<open>now\<close> is \<open>new Date().toISOString()\<close> at the time of the call.\<close>

definition service_addToCookingHistory ::
  "RecommendationService \<Rightarrow> string \<Rightarrow> string \<Rightarrow> real option \<Rightarrow> string option
     \<Rightarrow> RecommendationService" where
  "service_addToCookingHistory s now rid rating' notes' =
     (let history = service_getCookingHistory s;
          newEntry = \<lparr> recipeId = rid, cookedAt = now, rating = rating', notes_text = notes' \<rparr>;
          updatedHistory = newEntry # filter (\<lambda>h. recipeId h \<noteq> rid) history
      in case setItem_COOKING_HISTORY (asyncStorage s) updatedHistory of
           Inl e \<Rightarrow> s
         | Inr st \<Rightarrow> s\<lparr>asyncStorage := st\<rparr>)"

text \<open>
  The \<open>if (liked) \<dots> else \<dots>\<close> block of \<open>updateIngredientPreference\<close>, as the change it
  makes to the preferences object: \<open>push\<close> unless already included, and the other list
  replaced by its \<open>filter\<close>.
\<close>

definition toggleIngredient :: "UserPreferences \<Rightarrow> string \<Rightarrow> bool \<Rightarrow> UserPreferences" where
  "toggleIngredient preferences ingredient liked =
     (if liked
      then
        preferences
          \<lparr> favoriteIngredients :=
              (if ingredient \<notin> set (favoriteIngredients preferences)
               then favoriteIngredients preferences @ [ingredient]
               else favoriteIngredients preferences),
            dislikedIngredients :=
              filter (\<lambda>ing. ing \<noteq> ingredient) (dislikedIngredients preferences) \<rparr>
      else
        preferences
          \<lparr> dislikedIngredients :=
              (if ingredient \<notin> set (dislikedIngredients preferences)
               then dislikedIngredients preferences @ [ingredient]
               else dislikedIngredients preferences),
            favoriteIngredients :=
              filter (\<lambda>ing. ing \<noteq> ingredient) (favoriteIngredients preferences) \<rparr>)"

text \<open>
  When \<open>preferences\<close> is the default object, the block has changed the object held by
  the service; a parsed copy is local to the call.
\<close>

definition service_updateIngredientPreference ::
  "RecommendationService \<Rightarrow> string \<Rightarrow> bool \<Rightarrow> RecommendationService" where
  "service_updateIngredientPreference s ingredient liked =
     (let ref = service_getUserPreferences s;
          preferences = toggleIngredient (deref s ref) ingredient liked;
          s' = (case ref of
                  DefaultObject \<Rightarrow> s\<lparr>defaultPreferencesObj := preferences\<rparr>
                | ParsedCopy p \<Rightarrow> s)
      in service_updateUserPreferences s' (allFields preferences))"

definition service_getPersonalizedRecommendations ::
  "RecommendationService \<Rightarrow> string list \<Rightarrow> Recipe list \<Rightarrow> ScoredRecipe list option" where
  "service_getPersonalizedRecommendations s availableIngredients recipes =
     (let preferences = service_currentPreferences s;
          cookingHistory = service_getCookingHistory s;
          scoredRecipes =
            map (\<lambda>recipe.
                   map_option (withPersonalScore recipe)
                     (service_calculateRecipeScore recipe preferences cookingHistory
                        availableIngredients))
                recipes
      in map_option sortByPersonalScore (those scoredRecipes))"

section \<open>Notions used to state the properties\<close>

text \<open>
  The iteration order of a \<open>Set\<close> built by adding the elements of a list one by one:
  every element once, at the place of its first occurrence.
\<close>

definition firstOccurrences :: "'a list \<Rightarrow> 'a list" where
  "firstOccurrences xs = rev (remdups (rev xs))"

text \<open>The complements one ingredient brings in: the rows whose key it contains, in table order.\<close>

definition complementsFor :: "string \<Rightarrow> string list" where
  "complementsFor ingredient =
     concat (map snd (filter (\<lambda>(key, complements). includes_str (toLowerCase ingredient) key)
                        complementaryMap))"

text \<open>
  The specification's wording of the suggestion order: favorites first, then the
  complements of the matching rows in the order in which the table defines them.
\<close>

definition tableOrderComplements :: "string list \<Rightarrow> string list" where
  "tableOrderComplements currentIngredients =
     concat (map snd
       (filter (\<lambda>(key, complements).
                  list_ex (\<lambda>current. includes_str (toLowerCase current) key) currentIngredients)
          complementaryMap))"

definition spec_suggestIngredients :: "UserPreferences \<Rightarrow> string list \<Rightarrow> string list" where
  "spec_suggestIngredients preferences currentIngredients =
     take 8 (filter (suggestionKept currentIngredients (dislikedIngredients preferences))
       (firstOccurrences
          (favoriteIngredients preferences @ tableOrderComplements currentIngredients)))"

text \<open>
  The specification's matching rule: \<open>a\<close> is a case-insensitive substring of \<open>b\<close>, and the
  symmetric rule built from it.
\<close>

definition ci_substring :: "string \<Rightarrow> string \<Rightarrow> bool" where
  "ci_substring a b \<longleftrightarrow> sublist (toLowerCase a) (toLowerCase b)"

definition spec_ingredientMatch :: "string \<Rightarrow> string \<Rightarrow> bool" where
  "spec_ingredientMatch a b \<longleftrightarrow> ci_substring a b \<or> ci_substring b a"



text \<open>A sequence of \<open>updateIngredientPreference\<close> calls, each awaited before the next.\<close>

definition recordAll ::
  "RecommendationService \<Rightarrow> (string \<times> bool) list \<Rightarrow> RecommendationService" where
  "recordAll s calls =
     foldl (\<lambda>s (ingredient, liked). service_updateIngredientPreference s ingredient liked)
       s calls"

section \<open>Sample inputs\<close>

definition scenarioRecipe :: Recipe where
  "scenarioRecipe =
     \<lparr> idString = ''1'', healthScore = Some 80, spoonacularScore = Some 60,
       readyInMinutes = Some 20, extendedIngredients = Some [''tomato'', ''basil''],
       instructions = None, vegetarian = None, vegan = None, glutenFree = None \<rparr>"

definition bareRecipe :: Recipe where
  "bareRecipe =
     \<lparr> idString = ''2'', healthScore = None, spoonacularScore = None,
       readyInMinutes = None, extendedIngredients = None,
       instructions = None, vegetarian = None, vegan = None, glutenFree = None \<rparr>"

definition extremeRecipe :: Recipe where
  "extremeRecipe =
     \<lparr> idString = ''3'', healthScore = Some 1000000000000, spoonacularScore = None,
       readyInMinutes = Some 1000000000000, extendedIngredients = Some [''Saffron''],
       instructions = None, vegetarian = None, vegan = None, glutenFree = None \<rparr>"

definition tomatoRecipe :: Recipe where
  "tomatoRecipe = bareRecipe\<lparr>extendedIngredients := Some [''Tomato'']\<rparr>"

definition emptyStorage :: AsyncStorage where
  "emptyStorage =
     \<lparr> userPreferencesItem = NoItem, cookingHistoryItem = NoItem,
       getItemRejects = False, setItemRejects = False \<rparr>"

definition savedStorage :: AsyncStorage where
  "savedStorage =
     \<lparr> userPreferencesItem =
         JsonOf (defaultPreferences\<lparr>favoriteIngredients := [''basil''], maxCookingTime := 15\<rparr>),
       cookingHistoryItem =
         JsonOf [ \<lparr> recipeId = ''7'', cookedAt = ''2024-01-01T00:00:00.000Z'', rating = Some 3,
                    notes_text = None \<rparr>,
                  \<lparr> recipeId = ''9'', cookedAt = ''2023-12-24T00:00:00.000Z'', rating = None,
                    notes_text = Some ''salty'' \<rparr> ],
       getItemRejects = False, setItemRejects = False \<rparr>"

definition failingStorage :: AsyncStorage where
  "failingStorage = savedStorage\<lparr>getItemRejects := True, setItemRejects := True\<rparr>"

definition pickyStorage :: AsyncStorage where
  "pickyStorage =
     \<lparr> userPreferencesItem =
         JsonOf (defaultPreferences
                   \<lparr> favoriteIngredients := [''Basil'', ''kale'', ''tomato'', ''basil''],
                     dislikedIngredients := [''garlic''] \<rparr>),
       cookingHistoryItem = NoItem, getItemRejects = False, setItemRejects = False \<rparr>"

section \<open>The score is a number between 0 and 100\<close>






lemma extreme_scores:
  "engine_calculateRecipeScore extremeRecipe defaultPreferences [''saffron''] = Some 100"
  "service_calculateRecipeScore extremeRecipe defaultPreferences [] [''saffron''] = Some 100"
  "engine_calculateRecipeScore (extremeRecipe\<lparr>healthScore := Some (- 1000000000000)\<rparr>)
     defaultPreferences [''saffron''] = Some 0"
  by code_simp+

section \<open>A recipe without ingredients\<close>



section \<open>The worked scenario\<close>

text \<open>
  C4, as amended. For the recipe with health 80, popularity 60, 20 minutes and the
  ingredients tomato and basil, with tomato available, the default preferences and an
  empty history: the trimmed module \<open>RecommendationEngine\<close> computes 71 (base 36,
  availability 10, time 25; it has no further terms that could fire) and its ranking
  reports 71. The full module \<open>RecommendationService\<close> computes 91 and reports 91: with
  no dietary restriction the compliance check succeeds and adds 10, and a beginner gets
  10 more for a recipe of complexity \<open>Easy\<close>.
\<close>

theorem scenario_scores:
  "engine_calculateRecipeScore scenarioRecipe defaultPreferences [''tomato''] = Some 71 \<and>
   engine_getPersonalizedRecommendations emptyStorage [''tomato''] [scenarioRecipe]
     = Some [withPersonalScore scenarioRecipe 71] \<and>
   service_calculateRecipeScore scenarioRecipe defaultPreferences [] [''tomato''] = Some 91 \<and>
   service_getPersonalizedRecommendations (newRecommendationService emptyStorage) [''tomato'']
       [scenarioRecipe]
     = Some [withPersonalScore scenarioRecipe 91]"
proof -
  have e: "engine_calculateRecipeScore scenarioRecipe defaultPreferences [''tomato''] = Some 71"
    by code_simp
  have s: "service_calculateRecipeScore scenarioRecipe defaultPreferences [] [''tomato'']
             = Some 91"
    by code_simp
  have p: "engine_getUserPreferences emptyStorage = defaultPreferences"
    by (simp add: engine_getUserPreferences_def getItem_PREFERENCES_def emptyStorage_def)
  have q: "service_currentPreferences (newRecommendationService emptyStorage)
             = defaultPreferences"
    by (simp add: service_currentPreferences_def service_getUserPreferences_def
          getItem_PREFERENCES_def emptyStorage_def newRecommendationService_def)
  have h: "service_getCookingHistory (newRecommendationService emptyStorage) = []"
    by (simp add: service_getCookingHistory_def getItem_COOKING_HISTORY_def emptyStorage_def
          newRecommendationService_def)
  show ?thesis
    by (simp add: e s p q h engine_getPersonalizedRecommendations_def
          service_getPersonalizedRecommendations_def sortByPersonalScore_def)
qed

text \<open>
  C4 as stated fails on the full module: its score for the scenario is not 71, because
  the dietary and the skill term do fire.
\<close>

theorem scenario_service_score_counterexample:
  "service_calculateRecipeScore scenarioRecipe defaultPreferences [] [''tomato''] \<noteq> Some 71 \<and>
   checkDietaryCompliance scenarioRecipe (dietaryRestrictions defaultPreferences) \<and>
   calculateSkillLevelBonus scenarioRecipe (skillLevel defaultPreferences) = 10"
  by code_simp

section \<open>Ranking\<close>

lemma personalScore_withPersonalScore [simp]:
  "personalScore (withPersonalScore recipe score) = score"
  by (simp add: withPersonalScore_def Recipe.defs ScoredRecipe.defs)

lemma truncate_withPersonalScore [simp]:
  "Recipe.truncate (withPersonalScore recipe score) = recipe"
  by (simp add: withPersonalScore_def Recipe.defs ScoredRecipe.defs)




lemma set_sortByPersonalScore [simp]: "set (sortByPersonalScore xs) = set xs"
  by (simp add: sortByPersonalScore_def)




lemma ranking_example:
  "engine_getPersonalizedRecommendations emptyStorage [''tomato''] [bareRecipe, scenarioRecipe]
     = Some [withPersonalScore scenarioRecipe 71, withPersonalScore bareRecipe 40]"
  by code_simp

section \<open>Ingredient matching\<close>

lemma toLowerCaseChar_idem [simp]: "toLowerCaseChar (toLowerCaseChar c) = toLowerCaseChar c"
  by (simp add: toLowerCaseChar_def Let_def)

lemma toLowerCase_idem [simp]: "toLowerCase (toLowerCase s) = toLowerCase s"
  by (simp add: toLowerCase_def)

text \<open>
  C3, as amended. The recipe ingredient name \<open>a\<close> reaches the three predicates in lower
  case. Availability scoring matches it against an available name \<open>b\<close> when \<open>a\<close> is a
  case-insensitive substring of \<open>b\<close> or \<open>b\<close> of \<open>a\<close>. Favorite and disliked matching
  go one way only: \<open>a\<close> matches the favorite or disliked name \<open>b\<close> when \<open>b\<close> is a
  case-insensitive substring of \<open>a\<close>.
\<close>

theorem ingredient_matching_rules:
  "(availabilityMatch (toLowerCase a) b \<longleftrightarrow> ci_substring a b \<or> ci_substring b a) \<and>
   (favoriteMatch (toLowerCase a) b \<longleftrightarrow> ci_substring b a) \<and>
   (dislikedMatch (toLowerCase a) b \<longleftrightarrow> ci_substring b a)"
  by (auto simp: availabilityMatch_def favoriteMatch_def dislikedMatch_def
        ci_substring_def includes_str_def)

text \<open>The example of the specification: \<open>Tomato\<close> against \<open>tomatoes, diced\<close>.\<close>

theorem ingredient_matching_rules_witness:
  "availabilityMatch (toLowerCase ''tomatoes, diced'') ''Tomato'' \<and>
   favoriteMatch (toLowerCase ''tomatoes, diced'') ''Tomato'' \<and>
   dislikedMatch (toLowerCase ''tomatoes, diced'') ''Tomato''"
proof -
  have "ci_substring ''Tomato'' ''tomatoes, diced''" by code_simp
  then show ?thesis
    using ingredient_matching_rules [of "''tomatoes, diced''" "''Tomato''"] by blast
qed

text \<open>
  C3 as stated fails for favorites and dislikes: the recipe ingredient \<open>Tomato\<close> and the
  name \<open>tomatoes\<close> match by the symmetric rule, and availability counts the ingredient,
  but neither the favorite bonus nor the disliked penalty does.
\<close>

theorem favorite_match_counterexample:
  "spec_ingredientMatch ''Tomato'' ''tomatoes'' \<and>
   \<not> favoriteMatch (toLowerCase ''Tomato'') ''tomatoes'' \<and>
   \<not> dislikedMatch (toLowerCase ''Tomato'') ''tomatoes'' \<and>
   calculateIngredientAvailability (recipeIngredientsOf tomatoRecipe) [''tomatoes''] = Some 1 \<and>
   calculateFavoriteIngredientsBonus (recipeIngredientsOf tomatoRecipe) [''tomatoes''] = 0 \<and>
   calculateDislikedIngredientsPenalty (recipeIngredientsOf tomatoRecipe) [''tomatoes''] = 0"
  by code_simp

section \<open>Reading the preferences\<close>



section \<open>Recording ingredient preferences\<close>


lemma spread_allFields [simp]: "spread current (allFields p) = p"
  by (simp add: spread_def allFields_def)



lemma updateUserPreferences_allFields:
  "service_updateUserPreferences s (allFields p) =
     (if setItemRejects (asyncStorage s) then s
      else s\<lparr>asyncStorage := (asyncStorage s)\<lparr>userPreferencesItem := JsonOf p\<rparr>\<rparr>)"
  by (simp add: service_updateUserPreferences_def setItem_PREFERENCES_def Let_def)








text \<open>
  What the sample calls leave behind, and the two effects of a store that rejects: the
  saved preferences stay as they were, and with nothing readable the change lands in
  the default object of the service, which later reads return.
\<close>

lemma recordAll_example:
  "service_currentPreferences
     (recordAll (newRecommendationService emptyStorage)
        [(''kale'', True), (''basil'', True), (''kale'', False)])
   = defaultPreferences\<lparr>favoriteIngredients := [''basil''], dislikedIngredients := [''kale'']\<rparr>"
  by code_simp

lemma rejected_write_keeps_store:
  "setItemRejects (asyncStorage s) \<Longrightarrow>
     asyncStorage (service_updateIngredientPreference s x liked) = asyncStorage s"
  by (cases "service_getUserPreferences s")
     (simp_all add: service_updateIngredientPreference_def updateUserPreferences_allFields
        Let_def)

lemma default_object_changed_in_place:
  "service_currentPreferences
     (service_updateIngredientPreference (newRecommendationService failingStorage) ''kale'' True)
   = defaultPreferences\<lparr>favoriteIngredients := [''kale'']\<rparr>"
  by code_simp

section \<open>Recording cooking events\<close>



lemma rejected_write_keeps_history:
  "setItemRejects (asyncStorage s) \<Longrightarrow> service_addToCookingHistory s now rid r n = s"
  by (simp add: service_addToCookingHistory_def setItem_COOKING_HISTORY_def Let_def)



section \<open>Ingredient suggestions\<close>

lemma set_firstOccurrences [simp]: "set (firstOccurrences xs) = set xs"
  by (simp add: firstOccurrences_def)

lemma firstOccurrences_Nil [simp]: "firstOccurrences [] = []"
  by (simp add: firstOccurrences_def)

lemma firstOccurrences_idem [simp]: "firstOccurrences (firstOccurrences xs) = firstOccurrences xs"
  by (simp add: firstOccurrences_def)

lemma firstOccurrences_snoc: "firstOccurrences (ys @ [x]) = set_add (firstOccurrences ys) x"
  by (simp add: firstOccurrences_def set_add_def)

lemma foldl_set_add: "foldl set_add (firstOccurrences acc) xs = firstOccurrences (acc @ xs)"
proof (induction xs rule: rev_induct)
  case Nil
  then show ?case by simp
next
  case (snoc x xs)
  have "foldl set_add (firstOccurrences acc) (xs @ [x])
          = set_add (firstOccurrences (acc @ xs)) x"
    by (simp add: snoc.IH)
  also have "\<dots> = firstOccurrences ((acc @ xs) @ [x])"
    by (rule firstOccurrences_snoc [symmetric])
  finally show ?case by simp
qed

lemma firstOccurrences_append:
  "firstOccurrences ((xs :: string list) @ ys)
     = firstOccurrences xs @ filter (\<lambda>y. y \<notin> set xs) (firstOccurrences ys)"
proof (induction ys rule: rev_induct)
  case Nil
  then show ?case by simp
next
  case (snoc y ys)
  have "firstOccurrences (xs @ ys @ [y]) = set_add (firstOccurrences (xs @ ys)) y"
    using firstOccurrences_snoc [of "xs @ ys" y] by simp
  then show ?case
    by (auto simp: snoc.IH firstOccurrences_snoc set_add_def)
qed

lemma foldl_table:
  "foldl (\<lambda>suggestions (key, complements).
            if includes_str low key then foldl set_add suggestions complements else suggestions)
         (firstOccurrences acc) table
   = firstOccurrences
       (acc @ concat (map snd (filter (\<lambda>(key, complements). includes_str low key) table)))"
proof (induction table arbitrary: acc)
  case Nil
  then show ?case by simp
next
  case (Cons entry table)
  obtain key complements where entry: "entry = (key, complements)" by (cases entry)
  show ?case
  proof (cases "includes_str low key")
    case True
    then show ?thesis
      using Cons.IH [of "acc @ complements"] by (simp add: entry foldl_set_add)
  next
    case False
    then show ?thesis
      using Cons.IH [of acc] by (simp add: entry)
  qed
qed

lemma foldl_ingredients:
  "foldl (\<lambda>suggestions ingredient.
              let lowerIngredient = toLowerCase ingredient
              in foldl (\<lambda>suggestions (key, complements).
                          if includes_str lowerIngredient key
                          then foldl set_add suggestions complements
                          else suggestions)
                       suggestions complementaryMap)
           (firstOccurrences acc) ingredients
   = firstOccurrences (acc @ concat (map complementsFor ingredients))"
proof (induction ingredients arbitrary: acc)
  case Nil
  then show ?case by simp
next
  case (Cons ingredient ingredients)
  show ?case
    using Cons.IH [of "acc @ complementsFor ingredient"]
    by (simp add: Let_def foldl_table complementsFor_def)
qed

lemma getComplementaryIngredients_eq:
  "getComplementaryIngredients ingredients
     = firstOccurrences (concat (map complementsFor ingredients))"
  using foldl_ingredients [of "[]" ingredients]
  by (simp add: getComplementaryIngredients_def)

lemma suggestions_eq:
  "engine_getSuggestedIngredients st current =
     take 8 (filter (suggestionKept current (dislikedIngredients (engine_getUserPreferences st)))
       (firstOccurrences (favoriteIngredients (engine_getUserPreferences st)
          @ concat (map complementsFor current))))"
proof -
  let ?favs = "favoriteIngredients (engine_getUserPreferences st)"
  have one: "foldl set_add [] ?favs = firstOccurrences ?favs"
    using foldl_set_add [of "[]" ?favs] by simp
  have two: "foldl set_add (firstOccurrences ?favs) (getComplementaryIngredients current)
               = firstOccurrences (?favs @ concat (map complementsFor current))"
    by (simp add: foldl_set_add getComplementaryIngredients_eq firstOccurrences_append)
  show ?thesis
    by (simp add: engine_getSuggestedIngredients_def Let_def one two)
qed

lemma includes_str_refl [simp]: "includes_str s s"
  by (simp add: includes_str_def)

lemma suggestionKept_not_member:
  assumes "suggestionKept current disliked ing"
  shows "ing \<notin> set current \<and> ing \<notin> set disliked"
  using assms by (auto simp: suggestionKept_def list_ex_iff)

text \<open>
  C8. For every list of current ingredients and every state of the store,
  \<open>getSuggestedIngredients\<close> returns at most 8 names, none of which is a member of the
  current ingredients or of the disliked ingredients of the preferences it read; and
  every preferences value is the one read in some state of the store.
\<close>

theorem suggestions_bounded_and_filtered:
  "length (engine_getSuggestedIngredients st currentIngredients) \<le> 8 \<and>
   (\<forall>ing \<in> set (engine_getSuggestedIngredients st currentIngredients).
       ing \<notin> set currentIngredients \<and>
       ing \<notin> set (dislikedIngredients (engine_getUserPreferences st))) \<and>
   engine_getUserPreferences (st\<lparr>userPreferencesItem := JsonOf p, getItemRejects := False\<rparr>) = p"
proof -
  have "ing \<notin> set currentIngredients \<and>
        ing \<notin> set (dislikedIngredients (engine_getUserPreferences st))"
    if "ing \<in> set (engine_getSuggestedIngredients st currentIngredients)" for ing
  proof -
    from that have
      "suggestionKept currentIngredients (dislikedIngredients (engine_getUserPreferences st)) ing"
      by (auto simp: engine_getSuggestedIngredients_def Let_def dest: in_set_takeD)
    then show ?thesis by (rule suggestionKept_not_member)
  qed
  moreover have "length (engine_getSuggestedIngredients st currentIngredients) \<le> 8"
    by (simp add: engine_getSuggestedIngredients_def Let_def)
  moreover have
    "engine_getUserPreferences (st\<lparr>userPreferencesItem := JsonOf p, getItemRejects := False\<rparr>) = p"
    by (simp add: engine_getUserPreferences_def getItem_PREFERENCES_def)
  ultimately show ?thesis by blast
qed

theorem suggestions_bounded_and_filtered_witness:
  "''rosemary'' \<in> set (engine_getSuggestedIngredients pickyStorage [''chicken'', ''Tomato'']) \<and>
   ''rosemary'' \<notin> set [''chicken'', ''Tomato''] \<and>
   ''rosemary'' \<notin> set (dislikedIngredients (engine_getUserPreferences pickyStorage)) \<and>
   length (engine_getSuggestedIngredients pickyStorage [''chicken'', ''Tomato'']) \<le> 8"
proof -
  have m: "''rosemary''
             \<in> set (engine_getSuggestedIngredients pickyStorage [''chicken'', ''Tomato''])"
    by code_simp
  show ?thesis
    using m suggestions_bounded_and_filtered [of pickyStorage "[''chicken'', ''Tomato'']"]
    by blast
qed

text \<open>
  C9, as amended. The suggestions come in the insertion order of the set: first the
  favorites that survive the filter, in favorites order and each at its first
  occurrence; then the surviving complements that are not favorites, ordered by the
  current ingredient that brings them in (in the order of the current ingredients) and,
  for one current ingredient, in table order, each at its first occurrence. The cut to
  8 comes after that ordering.
\<close>

theorem suggestion_order:
  "engine_getSuggestedIngredients st currentIngredients =
     take 8
       (filter (suggestionKept currentIngredients
                  (dislikedIngredients (engine_getUserPreferences st)))
          (firstOccurrences (favoriteIngredients (engine_getUserPreferences st)))
        @ filter (suggestionKept currentIngredients
                    (dislikedIngredients (engine_getUserPreferences st)))
            (filter (\<lambda>ing. ing \<notin> set (favoriteIngredients (engine_getUserPreferences st)))
               (firstOccurrences (concat (map complementsFor currentIngredients)))))"
  by (simp add: suggestions_eq firstOccurrences_append)

theorem suggestion_order_witness:
  "engine_getSuggestedIngredients pickyStorage [''chicken'', ''Tomato''] =
     [''Basil'', ''kale'', ''basil'', ''rosemary'', ''thyme'', ''lemon'', ''mozzarella'',
      ''olive oil'']"
proof -
  have fv: "favoriteIngredients (engine_getUserPreferences pickyStorage) =
              [''Basil'', ''kale'', ''tomato'', ''basil'']"
    by (simp add: engine_getUserPreferences_def getItem_PREFERENCES_def pickyStorage_def)
  have dv: "dislikedIngredients (engine_getUserPreferences pickyStorage) = [''garlic'']"
    by (simp add: engine_getUserPreferences_def getItem_PREFERENCES_def pickyStorage_def)
  have f: "filter (suggestionKept [''chicken'', ''Tomato''] [''garlic''])
             (firstOccurrences [''Basil'', ''kale'', ''tomato'', ''basil'']) =
           [''Basil'', ''kale'', ''basil'']"
    by code_simp
  have c: "filter (suggestionKept [''chicken'', ''Tomato''] [''garlic''])
             (filter (\<lambda>ing. ing \<notin> set [''Basil'', ''kale'', ''tomato'', ''basil''])
                (firstOccurrences (concat (map complementsFor [''chicken'', ''Tomato''])))) =
           [''rosemary'', ''thyme'', ''lemon'', ''mozzarella'', ''olive oil'']"
    by code_simp
  have "engine_getSuggestedIngredients pickyStorage [''chicken'', ''Tomato''] =
          take 8 ([''Basil'', ''kale'', ''basil'']
                  @ [''rosemary'', ''thyme'', ''lemon'', ''mozzarella'', ''olive oil''])"
    using suggestion_order [of pickyStorage "[''chicken'', ''Tomato'']"]
    by (simp only: fv dv f c)
  then show ?thesis by simp
qed

text \<open>
  C9 as stated fails when two current ingredients match rows of the table in the
  opposite order: with chicken before tomato, the complements of chicken (second row)
  come before those of tomato (first row), while table order puts basil first.
\<close>

theorem suggestion_order_counterexample:
  "engine_getSuggestedIngredients emptyStorage [''chicken'', ''tomato''] =
     [''rosemary'', ''thyme'', ''lemon'', ''garlic'', ''basil'', ''mozzarella'', ''olive oil''] \<and>
   spec_suggestIngredients (engine_getUserPreferences emptyStorage) [''chicken'', ''tomato''] =
     [''basil'', ''mozzarella'', ''garlic'', ''olive oil'', ''rosemary'', ''thyme'', ''lemon''] \<and>
   engine_getSuggestedIngredients emptyStorage [''chicken'', ''tomato''] \<noteq>
     spec_suggestIngredients (engine_getUserPreferences emptyStorage) [''chicken'', ''tomato'']"
  by code_simp

end
